theory Spec2Isabelle
  imports Main
begin

section \<open>JavaScript strings and numbers\<close>

text \<open>
  A JavaScript string is modelled as a \<open>string\<close>: a list of code units, here the
  8-bit ones. Numbers are needed only where the source parses a line number:
  \<open>parseInt\<close> yields an integer or \<open>NaN\<close>, and \<open>NaN - 1\<close> is \<open>NaN\<close>.
\<close>

datatype jsnum = NaN | Num int

definition jsnum_minus1 :: "jsnum \<Rightarrow> jsnum" where
  "jsnum_minus1 x = (case x of NaN \<Rightarrow> NaN | Num k \<Rightarrow> Num (k - 1))"

text \<open>White space as \<open>String.prototype.trim\<close> and \<open>parseInt\<close> strip it: tab, line feed,
  vertical tab, form feed, carriage return, space and the no-break space.\<close>

definition is_ws :: "char \<Rightarrow> bool" where
  "is_ws c = (List.member [CHR 0x09, CHR 0x0A, CHR 0x0B, CHR 0x0C, CHR 0x0D, CHR 0x20, CHR 0xA0] c)"

definition trim :: "string \<Rightarrow> string" where
  "trim s = rev (dropWhile is_ws (rev (dropWhile is_ws s)))"

text \<open>\<open>Array.prototype.join\<close> on an array of strings.\<close>

fun join :: "string \<Rightarrow> string list \<Rightarrow> string" where
  "join sep [] = []"
| "join sep [x] = x"
| "join sep (x # y # ys) = x @ sep @ join sep (y # ys)"

text \<open>\<open>s.split(c)\<close> for a one-character separator: the empty string splits into one
  empty piece, and a trailing separator leaves a trailing empty piece.\<close>

fun split :: "char \<Rightarrow> string \<Rightarrow> string list" where
  "split c [] = [[]]"
| "split c (x # xs) =
     (if x = c then [] # split c xs
      else (case split c xs of [] \<Rightarrow> [[x]] | w # ws \<Rightarrow> (x # w) # ws))"

text \<open>\<open>s.indexOf(c, pos)\<close> for a one-character search string: \<open>pos\<close> is clamped to
  \<open>[0, length]\<close>, the result is the first index at or after it, or \<open>-1\<close>.\<close>

fun index_from :: "string \<Rightarrow> char \<Rightarrow> nat \<Rightarrow> int" where
  "index_from [] c i = - 1"
| "index_from (x # xs) c i = (if x = c then int i else index_from xs c (Suc i))"

definition indexOf :: "string \<Rightarrow> char \<Rightarrow> int \<Rightarrow> int" where
  "indexOf s c pos =
     (let k = nat (min (max pos 0) (int (length s))) in index_from (drop k s) c k)"

text \<open>\<open>s.slice(start, fin)\<close>: a negative index counts from the end, both are clamped
  to \<open>[0, length]\<close>, and the result is empty when the start is not before the end.
  \<open>slice_from s start\<close> is \<open>s.slice(start)\<close>.\<close>

definition slice_index :: "string \<Rightarrow> int \<Rightarrow> nat" where
  "slice_index s i =
     (let len = int (length s) in nat (if i < 0 then max (len + i) 0 else min i len))"

definition slice :: "string \<Rightarrow> int \<Rightarrow> int \<Rightarrow> string" where
  "slice s start fin =
     (let a = slice_index s start; b = slice_index s fin in take (b - a) (drop a s))"

definition slice_from :: "string \<Rightarrow> int \<Rightarrow> string" where
  "slice_from s start = drop (slice_index s start) s"

text \<open>\<open>parseInt(s)\<close> with no radix: leading white space is skipped, then an optional
  sign, then \<open>0x\<close> or \<open>0X\<close> selects radix 16 (radix 10 otherwise); the longest prefix
  of digits of that radix is the value, whatever follows it is ignored, and no digit at
  all gives \<open>NaN\<close>. (The value is exact below \<open>2^53\<close>; the rounding of larger ones is
  not modelled.)\<close>

definition digit_value :: "char \<Rightarrow> nat option" where
  "digit_value c =
     (let n = (of_char c :: nat) in
      if 48 \<le> n \<and> n \<le> 57 then Some (n - 48)
      else if 97 \<le> n \<and> n \<le> 122 then Some (n - 87)
      else if 65 \<le> n \<and> n \<le> 90 then Some (n - 55)
      else None)"

definition is_digit :: "nat \<Rightarrow> char \<Rightarrow> bool" where
  "is_digit radix c = (case digit_value c of None \<Rightarrow> False | Some d \<Rightarrow> d < radix)"

definition digits_value :: "nat \<Rightarrow> string \<Rightarrow> nat" where
  "digits_value radix ds = foldl (\<lambda>a c. a * radix + the (digit_value c)) 0 ds"

definition parseInt :: "string \<Rightarrow> jsnum" where
  "parseInt s =
     (let s1 = dropWhile is_ws s;
          sgn = (case s1 of [] \<Rightarrow> 1 | c # r \<Rightarrow> if c = CHR ''-'' then - 1 else (1::int));
          s2 = (case s1 of [] \<Rightarrow> [] | c # r \<Rightarrow> if c = CHR ''-'' \<or> c = CHR ''+'' then r else s1);
          hex = (case s2 of a # b # r \<Rightarrow> a = CHR ''0'' \<and> (b = CHR ''x'' \<or> b = CHR ''X'') | _ \<Rightarrow> False);
          radix = (if hex then 16 else 10);
          s3 = (if hex then drop 2 s2 else s2);
          ds = takeWhile (is_digit radix) s3
      in if ds = [] then NaN else Num (sgn * int (digits_value radix ds)))"

text \<open>\<open>n.toString()\<close> for an integer.\<close>

function toString_nat :: "nat \<Rightarrow> string" where
  "toString_nat n =
     (if n < 10 then [char_of (48 + n)]
      else toString_nat (n div 10) @ [char_of (48 + n mod 10)])"
  by pat_completeness auto
termination
  by (relation "measure id") auto

definition toString_int :: "int \<Rightarrow> string" where
  "toString_int i = (if i < 0 then CHR ''-'' # toString_nat (nat (- i)) else toString_nat (nat i))"

section \<open>Query results: \<open>CscopeItem\<close> and \<open>CscopeQuery\<close>\<close>

text \<open>
  What \<open>setResults\<close> uses from outside the repository is an environment: the
  workspace root (\<open>vscode.workspace.rootPath\<close>, which may be undefined),
  \<open>path.posix.join\<close>, the documents that \<open>vscode.workspace.openTextDocument\<close> can
  open (\<open>None\<close>: the call is rejected) given by their lines, and the regular
  expression engine behind \<open>String.prototype.search\<close>.
\<close>

datatype rx_result = RxSyntaxError | RxNoMatch | RxMatch nat nat

record vscode_env =
  rootPath :: "string option"
  posix_join :: "string \<Rightarrow> string \<Rightarrow> string"
  openTextDocument :: "string \<Rightarrow> string list option"
  regexp_exec :: "string \<Rightarrow> string \<Rightarrow> rx_result"

text \<open>\<open>text.search(pat)\<close> compiles the string \<open>pat\<close> to a regular expression, which
  throws a SyntaxError on an invalid pattern (\<open>None\<close>), and returns the index of the
  first match or \<open>-1\<close>. \<open>RxMatch i n\<close> is a match of \<open>n\<close> code units at index \<open>i\<close>.\<close>

definition search :: "vscode_env \<Rightarrow> string \<Rightarrow> string \<Rightarrow> int option" where
  "search env txt pat =
     (case regexp_exec env pat txt of
        RxSyntaxError \<Rightarrow> None
      | RxNoMatch \<Rightarrow> Some (- 1)
      | RxMatch i n \<Rightarrow> Some (int i))"

text \<open>\<open>TextDocument.lineAt(n)\<close> throws unless \<open>n\<close> is an integer in
  \<open>[0, lineCount)\<close>; \<open>None\<close> is the throw.\<close>

definition lineAt :: "string list \<Rightarrow> jsnum \<Rightarrow> string option" where
  "lineAt doc n =
     (case n of
        NaN \<Rightarrow> None
      | Num k \<Rightarrow> if 0 \<le> k \<and> k < int (length doc) then Some (doc ! nat k) else None)"

text \<open>\<open>new vscode.Range(l, c, l, d)\<close> on one line with \<open>c \<le> d\<close>: the line must be a
  non-negative integer.\<close>

record range =
  start_line :: nat
  start_character :: nat
  end_line :: nat
  end_character :: nat

definition new_Range :: "jsnum \<Rightarrow> nat \<Rightarrow> nat \<Rightarrow> range option" where
  "new_Range l c d =
     (case l of
        NaN \<Rightarrow> None
      | Num k \<Rightarrow>
          if 0 \<le> k
          then Some \<lparr>start_line = nat k, start_character = c, end_line = nat k, end_character = d\<rparr>
          else None)"

text \<open>The item. Its \<open>kind\<close> is the constant \<open>SymbolKind.Function\<close> and its
  \<open>selectionRange\<close> is its \<open>range\<close>; the \<open>uri\<close> is kept as the file path it was made
  from.\<close>

record CscopeItem =
  uri :: string
  name :: string
  rest :: string
  line_text :: string
  label :: string
  detail :: string
  item_range :: range

definition new_CscopeItem ::
  "vscode_env \<Rightarrow> string \<Rightarrow> string \<Rightarrow> range \<Rightarrow> string \<Rightarrow> string \<Rightarrow> CscopeItem" where
  "new_CscopeItem env u func r rst txt =
     (let offset = (case rootPath env of
                      None \<Rightarrow> 0
                    | Some root \<Rightarrow> if root = [] then 0 else length root + 1)
      in \<lparr>uri = u, name = func, rest = rst, line_text = txt,
          label = func @ '' : '' @ rst,
          detail = drop offset u @ '':'' @ toString_nat (start_line r) @ '':'' @
                   toString_nat (start_character r),
          item_range = r\<rparr>)"

text \<open>The query: its kind, its pattern and the items collected so far. The warnings
  that \<open>setResults\<close> shows are collected beside it.\<close>

record CscopeQuery =
  qtype :: string
  pattern :: string
  results :: "CscopeItem list"

definition new_CscopeQuery :: "string \<Rightarrow> string \<Rightarrow> CscopeQuery" where
  "new_CscopeQuery ty pat = \<lparr>qtype = ty, pattern = pat, results = []\<rparr>"

text \<open>\<open>path.isAbsolute\<close> for POSIX paths.\<close>

definition isAbsolute :: "string \<Rightarrow> bool" where
  "isAbsolute p = (case p of [] \<Rightarrow> False | c # cs \<Rightarrow> c = CHR ''/'')"

definition getFullPath :: "vscode_env \<Rightarrow> string \<Rightarrow> string" where
  "getFullPath env file =
     (if isAbsolute file then file
      else posix_join env (case rootPath env of None \<Rightarrow> [] | Some root \<Rightarrow> root) file)"

text \<open>The four fields of one output line, as \<open>setResults\<close> cuts them at the first
  three spaces: the file (made absolute), the function, the line number minus one and
  the rest of the line.\<close>

definition parse_line :: "vscode_env \<Rightarrow> string \<Rightarrow> string \<times> string \<times> jsnum \<times> string" where
  "parse_line env line =
     (let file_last = indexOf line (CHR '' '') 0;
          func_last = indexOf line (CHR '' '') (file_last + 1);
          line_last = indexOf line (CHR '' '') (func_last + 1);
          file = getFullPath env (slice line 0 file_last);
          func = slice line (file_last + 1) func_last;
          lnum = jsnum_minus1 (parseInt (slice line (func_last + 1) line_last));
          rst = slice_from line (line_last + 1)
      in (file, func, lnum, rst))"

text \<open>The \<open>try\<close> block of \<open>setResults\<close>: \<open>None\<close> when anything in it throws (the
  document does not open, the line does not exist, the pattern is not a regular
  expression), the new item otherwise.\<close>

definition resolve_item ::
  "vscode_env \<Rightarrow> CscopeQuery \<Rightarrow> string \<Rightarrow> string \<Rightarrow> jsnum \<Rightarrow> string \<Rightarrow> CscopeItem option" where
  "resolve_item env q file func lnum rst =
     (case openTextDocument env file of
        None \<Rightarrow> None
      | Some doc \<Rightarrow>
          (case lineAt doc lnum of
             None \<Rightarrow> None
           | Some txt \<Rightarrow>
               (let needle = (if qtype q = ''callee'' then func else pattern q) in
                case search env txt needle of
                  None \<Rightarrow> None
                | Some found \<Rightarrow>
                    (let cnum = (if found = - 1 then 0 else nat found);
                         len = (if found = - 1 then 0 else length needle)
                     in case new_Range lnum cnum (cnum + len) of
                          None \<Rightarrow> None
                        | Some r \<Rightarrow> Some (new_CscopeItem env file func r rst txt)))))"

text \<open>The warning of the \<open>catch\<close> block: \<open>Could not open\<close>, the file between double
  quotes, and a full stop.\<close>

definition could_not_open :: "string \<Rightarrow> string" where
  "could_not_open file = ''Could not open '' @ [CHR 0x22] @ file @ [CHR 0x22] @ ''.''"

text \<open>One turn of the loop of \<open>setResults\<close>, on the query and the warnings shown.\<close>

definition process_line ::
  "vscode_env \<Rightarrow> string \<Rightarrow> CscopeQuery \<times> string list \<Rightarrow> CscopeQuery \<times> string list" where
  "process_line env line st =
     (if length line < 3 then st
      else
        (let (file, func, lnum, rst) = parse_line env line in
         case resolve_item env (fst st) file func lnum rst of
           Some item \<Rightarrow> ((fst st)\<lparr>results := results (fst st) @ [item]\<rparr>, snd st)
         | None \<Rightarrow> (fst st, snd st @ [could_not_open file])))"

definition setResults ::
  "vscode_env \<Rightarrow> string \<Rightarrow> CscopeQuery \<times> string list \<Rightarrow> CscopeQuery \<times> string list" where
  "setResults env output st = foldl (\<lambda>s line. process_line env line s) st (split (CHR 0x0A) output)"

subsection \<open>A fragment of the regular expressions of JavaScript\<close>


definition is_line_terminator :: "char \<Rightarrow> bool" where
  "is_line_terminator c = (c = CHR 0x0A \<or> c = CHR 0x0D)"

definition starts_with_quantifier :: "string \<Rightarrow> bool" where
  "starts_with_quantifier pat = (case pat of [] \<Rightarrow> False | c # cs \<Rightarrow> List.member ''*+?'' c)"


fun match_here :: "string \<Rightarrow> string \<Rightarrow> nat \<Rightarrow> nat option" where
  "match_here [] t pos = Some 0"
| "match_here (p # ps) t pos =
     (if p = CHR ''^'' then (if pos = 0 then match_here ps t pos else None)
      else if p = CHR ''$'' then (if t = [] then match_here ps t pos else None)
      else (case t of
              [] \<Rightarrow> None
            | c # cs \<Rightarrow>
                if (if p = CHR ''.'' then \<not> is_line_terminator c else p = c)
                then map_option Suc (match_here ps cs (Suc pos))
                else None))"

fun exec_from :: "string \<Rightarrow> string \<Rightarrow> nat \<Rightarrow> rx_result" where
  "exec_from pat [] pos =
     (case match_here pat [] pos of Some n \<Rightarrow> RxMatch pos n | None \<Rightarrow> RxNoMatch)"
| "exec_from pat (c # cs) pos =
     (case match_here pat (c # cs) pos of
        Some n \<Rightarrow> RxMatch pos n
      | None \<Rightarrow> exec_from pat cs (Suc pos))"

definition regexp_fragment :: "string \<Rightarrow> string \<Rightarrow> rx_result" where
  "regexp_fragment pat txt =
     (if starts_with_quantifier pat then RxSyntaxError else exec_from pat txt 0)"

section \<open>The build queue of \<open>Cscope\<close>\<close>

text \<open>
  Promises are objects with an identity, and the queue holds references to them: the
  model keeps them in a heap, a list indexed by the promise's number. A promise made by
  \<open>buildSingle\<close> is \<open>Waiting deps cwd\<close> from its creation (its executor has called
  \<open>Promise.all(deps).then(...)\<close> and the callback has not run), \<open>Running cwd\<close> once the
  callback has spawned the process, and then settled. The two promises of the
  constructor are fulfilled from the start.
\<close>

datatype promise =
  Waiting "nat list" string
| Running string
| Fulfilled string
| Rejected string

text \<open>A value that stands where the source expects a string: a string, \<open>undefined\<close>,
  or the object that a name inherited from \<open>Object.prototype\<close> gives (a function; for
  \<open>__proto__\<close> the prototype itself), kept by that name.\<close>

datatype jsarg = JStr string | JUndefined | JObject string

text \<open>The arguments of a call of the log sink: a string, a number, an array, or some
  other object.\<close>

datatype logarg = Str string | Idx nat | Arr "jsarg list" | Obj

datatype logentry = Info "logarg list" | Err "logarg list"

text \<open>The four keys that the source reads from the configuration.\<close>

record config =
  cscope :: string
  database :: string
  buildArgs :: string
  queryArgs :: string

text \<open>
  \<open>buildSingle\<close> is an async function: it runs to its first \<open>await\<close> when it is called
  and goes on later, one \<open>await\<close> at a time, and other code runs in between. A call in
  progress is \<open>Suspended cwd len index state\<close>: it waits at the \<open>await\<close> of line 89 with
  these values of \<open>cwd\<close>, \<open>len\<close> and \<open>index\<close>, and \<open>state\<close> is what \<open>promiseState\<close> will
  give it. A call that has returned is \<open>Returned r\<close>: \<open>Inl\<close> is the reason of the rejected
  promise it returned, \<open>Inr\<close> the promise it stored in the queue and returned.
\<close>

datatype call =
  Suspended string nat nat string
| Returned "string + nat"

text \<open>The object: its queue, its two command lines, and beside them the heap of
  promises, the calls of \<open>buildSingle\<close> made so far, the calls of \<open>cp.spawn\<close> made so far
  (command, arguments, working directory) and the calls of the log sink.\<close>

record Cscope =
  heap :: "promise list"
  buildQueue :: "nat list"
  buildCmd :: string
  queryCmd :: string
  calls :: "call list"
  spawned :: "(string \<times> jsarg list \<times> string) list"
  logs :: "logentry list"

definition constructor :: Cscope where
  "constructor =
     \<lparr>heap = [Fulfilled [], Fulfilled []], buildQueue = [0, 1],
      buildCmd = [], queryCmd = [], calls = [], spawned = [], logs = []\<rparr>"

text \<open>\<open>promiseState\<close> races the promise against a value that is no promise: the answer is
  the state the promise has when \<open>promiseState\<close> is called.\<close>

definition promiseState :: "promise list \<Rightarrow> nat \<Rightarrow> string" where
  "promiseState h p =
     (case h ! p of
        Fulfilled v \<Rightarrow> ''fulfilled''
      | Rejected e \<Rightarrow> ''rejected''
      | Waiting deps cwd \<Rightarrow> ''pending''
      | Running cwd \<Rightarrow> ''pending'')"

text \<open>
  \<open>this.buildQueue.filter(async (p) => await promiseState(p) == 'pending')\<close>: the
  predicate is an async function, so what \<open>filter\<close> gets back for each element is a
  promise object (of the boolean), and \<open>filter\<close> keeps an element when that value is
  truthy. An object is truthy.
\<close>

datatype jsvalue = JSBool bool | JSPromise bool

fun truthy :: "jsvalue \<Rightarrow> bool" where
  "truthy (JSBool b) = b"
| "truthy (JSPromise b) = True"

definition is_pending_async :: "promise list \<Rightarrow> nat \<Rightarrow> jsvalue" where
  "is_pending_async h p = JSPromise (promiseState h p = ''pending'')"

definition pendingPromises :: "promise list \<Rightarrow> nat list \<Rightarrow> nat list" where
  "pendingPromises h q = filter (\<lambda>p. truthy (is_pending_async h p)) q"

text \<open>
  The call of \<open>buildSingle\<close>, up to its first \<open>await\<close> (lines 86 to 89): with a slot to
  look at, it calls \<open>promiseState\<close> on slot 0 and is suspended; with none, the loop is
  skipped and it returns \<open>queue full\<close>.
\<close>

definition buildSingle_call :: "string \<Rightarrow> Cscope \<Rightarrow> Cscope" where
  "buildSingle_call cwd s =
     (let len = length (buildQueue s)
      in if 0 < len
         then s\<lparr>calls := calls s @
                  [Suspended cwd len 0 (promiseState (heap s) (buildQueue s ! 0))]\<rparr>
         else s\<lparr>calls := calls s @ [Returned (Inl ''queue full'')],
                logs := logs s @ [Info [Str ''queue full'']]\<rparr>)"

text \<open>
  The call number \<open>c\<close> goes on from its \<open>await\<close> (lines 89 to 100 and 138). It logs the
  state it was given. When the state is not \<open>pending\<close> it leaves the loop and, without
  another \<open>await\<close>, filters the queue as the queue is now, stores the new promise in
  slot \<open>index\<close> and returns it. Otherwise it moves to the next slot: it calls
  \<open>promiseState\<close> on it now and is suspended again, or, past the last slot, returns
  \<open>queue full\<close>. (The queue keeps its length, so \<open>index\<close> is always a slot of it.)
\<close>

definition buildSingle_resume :: "nat \<Rightarrow> Cscope \<Rightarrow> Cscope" where
  "buildSingle_resume c s =
     (if c < length (calls s) then
        (case calls s ! c of
           Returned r \<Rightarrow> s
         | Suspended cwd len index state \<Rightarrow>
             (let s1 = s\<lparr>logs := logs s @ [Info [Str ''queue state'', Idx index, Str state]]\<rparr>
              in if state \<noteq> ''pending'' then
                   (let pending = pendingPromises (heap s1) (buildQueue s1);
                        p = length (heap s1)
                    in s1\<lparr>heap := heap s1 @ [Waiting pending cwd],
                          buildQueue := (buildQueue s1)[index := p],
                          calls := (calls s1)[c := Returned (Inr p)]\<rparr>)
                 else if Suc index < len then
                   s1\<lparr>calls := (calls s1)
                          [c := Suspended cwd len (Suc index)
                                  (promiseState (heap s1) (buildQueue s1 ! Suc index))]\<rparr>
                 else
                   s1\<lparr>logs := logs s1 @ [Info [Str ''queue full'']],
                      calls := (calls s1)[c := Returned (Inl ''queue full'')]\<rparr>))
      else s)"

text \<open>
  A call that nothing interrupts: the call and then its continuations, one for each
  slot, with no other call and no other event in between. This is a call whose caller
  waits for it while nothing else is in progress, as one run of \<open>build\<close> does at
  line 71. The result is the call as it stands at the end, and the object.
\<close>

fun resume_times :: "nat \<Rightarrow> nat \<Rightarrow> Cscope \<Rightarrow> Cscope" where
  "resume_times 0 c s = s"
| "resume_times (Suc n) c s = resume_times n c (buildSingle_resume c s)"

definition buildSingle_awaited :: "string \<Rightarrow> Cscope \<Rightarrow> call \<times> Cscope" where
  "buildSingle_awaited cwd s =
     (let c = length (calls s);
          s1 = resume_times (length (buildQueue s)) c (buildSingle_call cwd s)
      in (calls s1 ! c, s1))"

subsection \<open>What happens to a stored operation\<close>

definition is_fulfilled :: "promise list \<Rightarrow> nat \<Rightarrow> bool" where
  "is_fulfilled h p = (case h ! p of Fulfilled v \<Rightarrow> True | _ \<Rightarrow> False)"

definition is_settled :: "promise \<Rightarrow> bool" where
  "is_settled x = (case x of Fulfilled v \<Rightarrow> True | Rejected e \<Rightarrow> True | _ \<Rightarrow> False)"

text \<open>The callback given to \<open>Promise.all(pendingPromises).then\<close>: it runs once every
  promise of the list is fulfilled, and never when one of them is rejected (\<open>then\<close> is
  given no second callback). It spawns the process.\<close>

definition start :: "config \<Rightarrow> nat \<Rightarrow> Cscope \<Rightarrow> Cscope" where
  "start cfg p s =
     (if p < length (heap s) then
        (case heap s ! p of
           Waiting deps cwd \<Rightarrow>
             if list_all (is_fulfilled (heap s)) deps
             then (let cmd = cscope cfg;
                       db = database cfg;
                       args = [buildArgs cfg, ''-f'', db]
                   in s\<lparr>heap := (heap s)[p := Running cwd],
                        buildCmd := join '' '' (cmd # args),
                        spawned := spawned s @ [(cmd, map JStr args, cwd)],
                        logs := logs s @ [Info [Str ''start to build''],
                                         Info [Str cmd, Arr (map JStr args), Str cwd]]\<rparr>)
             else s
         | _ \<Rightarrow> s)
      else s)"

text \<open>The \<open>error\<close> handler of the process; \<open>msg\<close> is \<open>error.toString()\<close>.\<close>

definition proc_error :: "nat \<Rightarrow> string \<Rightarrow> Cscope \<Rightarrow> Cscope" where
  "proc_error p msg s =
     (if p < length (heap s) then
        (case heap s ! p of
           Running cwd \<Rightarrow>
             s\<lparr>heap := (heap s)[p := Rejected (trim msg)],
               logs := logs s @ [Err [Str ''error:'', Str msg]]\<rparr>
         | _ \<Rightarrow> s)
      else s)"

text \<open>The \<open>close\<close> handler, with the exit code (\<open>None\<close> is \<open>null\<close>: the process was
  ended by a signal) and all that the process wrote. A \<open>close\<close> that follows an \<open>error\<close>
  finds the promise settled and changes no promise; it is left out.\<close>

definition code_string :: "int option \<Rightarrow> string" where
  "code_string code = (case code of None \<Rightarrow> ''null'' | Some c \<Rightarrow> toString_int c)"

definition proc_close :: "nat \<Rightarrow> int option \<Rightarrow> string \<Rightarrow> string \<Rightarrow> Cscope \<Rightarrow> Cscope" where
  "proc_close p code out err s =
     (if p < length (heap s) then
        (case heap s ! p of
           Running cwd \<Rightarrow>
             (let l1 = (if length err > 0
                        then [Err [Str (''stderr: '' @ code_string code @ [CHR 0x0A] @ err)]]
                        else []);
                  l2 = [Info [Str (''stdout: '' @ code_string code @ [CHR 0x0A] @ out)]]
              in if code \<noteq> Some 0
                 then s\<lparr>heap := (heap s)[p := Rejected (trim err)],
                        logs := logs s @ l1 @ l2 @ [Info [Str ''done to build: error'']]\<rparr>
                 else s\<lparr>heap := (heap s)[p := Fulfilled (trim out)],
                        logs := logs s @ l1 @ l2 @ [Info [Str ''done to build: success'']]\<rparr>)
         | _ \<Rightarrow> s)
      else s)"

text \<open>Everything that can happen to the object: a call of \<open>buildSingle\<close>, the
  continuation of a suspended call, the start of a stored operation, and the end of its
  process. An event that cannot happen in a state leaves it as it is. Events may follow
  each other in any order; the order in which JavaScript takes them is one of these.\<close>

datatype event =
  Call string
| Resume nat
| Start nat
| ProcError nat string
| ProcClose nat "int option" string string

fun step :: "config \<Rightarrow> Cscope \<Rightarrow> event \<Rightarrow> Cscope" where
  "step cfg s (Call cwd) = buildSingle_call cwd s"
| "step cfg s (Resume c) = buildSingle_resume c s"
| "step cfg s (Start p) = start cfg p s"
| "step cfg s (ProcError p msg) = proc_error p msg s"
| "step cfg s (ProcClose p code out err) = proc_close p code out err s"

definition run :: "config \<Rightarrow> event list \<Rightarrow> Cscope \<Rightarrow> Cscope" where
  "run cfg evs s = foldl (step cfg) s evs"

text \<open>The operations that are outstanding: the promises of the heap that are pending.\<close>

definition outstanding :: "Cscope \<Rightarrow> nat list" where
  "outstanding s = filter (\<lambda>p. promiseState (heap s) p = ''pending'') [0..<length (heap s)]"

section \<open>The facade: \<open>build\<close> and \<open>query\<close>\<close>

text \<open>How the process of one directory ends: it cannot be launched, or it exits.\<close>

datatype proc_outcome = LaunchError string | Exit "int option" string string

definition settle :: "nat \<Rightarrow> proc_outcome \<Rightarrow> Cscope \<Rightarrow> Cscope" where
  "settle p oc s =
     (case oc of
        LaunchError msg \<Rightarrow> proc_error p msg s
      | Exit code out err \<Rightarrow> proc_close p code out err s)"

text \<open>
  \<open>await this.buildSingle(dir)\<close> on a stored operation, in one run of \<open>build\<close> with
  nothing else in progress. \<open>build\<close> submits one operation at a time and waits for it,
  so the only things that can happen while it waits are the start of this operation and
  the end of its process. When the operation is still pending after them (its start was
  not possible: a promise of its wait list is not fulfilled, and no process is running
  that could change that), nothing more happens and the \<open>await\<close> never returns: \<open>None\<close>.
  Promise numbers in the queue and in the wait lists are always numbers of the heap.
\<close>

definition await_build ::
  "config \<Rightarrow> nat \<Rightarrow> proc_outcome \<Rightarrow> Cscope \<Rightarrow> ((string + string) \<times> Cscope) option" where
  "await_build cfg p oc s =
     (let s1 = settle p oc (start cfg p s)
      in case heap s1 ! p of
           Fulfilled v \<Rightarrow> Some (Inr v, s1)
         | Rejected e \<Rightarrow> Some (Inl e, s1)
         | Waiting deps cwd \<Rightarrow> None
         | Running cwd \<Rightarrow> None)"

definition build_failed :: "string \<Rightarrow> string \<Rightarrow> Cscope \<Rightarrow> Cscope" where
  "build_failed dir err s =
     s\<lparr>logs := logs s @ [Err [Str (''Failed to build database for '' @ dir @ '':''), Str err]]\<rparr>"

text \<open>The loop of \<open>build\<close> over the directories, each given with the way its process
  ends if it is spawned. \<open>None\<close>: \<open>build\<close> never returns (a call that had not returned
  would keep it waiting too).\<close>

fun build_loop ::
  "config \<Rightarrow> (string \<times> proc_outcome) list \<Rightarrow> string list \<Rightarrow> Cscope \<Rightarrow>
   (string list \<times> Cscope) option" where
  "build_loop cfg [] res s = Some (res, s)"
| "build_loop cfg ((dir, oc) # ds) res s =
     (case buildSingle_awaited dir s of
        (Suspended cwd len index state, s1) \<Rightarrow> None
      | (Returned (Inl err), s1) \<Rightarrow>
          build_loop cfg ds (res @ [''Error: '' @ err]) (build_failed dir err s1)
      | (Returned (Inr p), s1) \<Rightarrow>
          (case await_build cfg p oc s1 of
             None \<Rightarrow> None
           | Some (Inr v, s2) \<Rightarrow> build_loop cfg ds (res @ [v]) s2
           | Some (Inl err, s2) \<Rightarrow>
               build_loop cfg ds (res @ [''Error: '' @ err]) (build_failed dir err s2)))"

definition build ::
  "config \<Rightarrow> (string \<times> proc_outcome) list \<Rightarrow> Cscope \<Rightarrow> (string \<times> Cscope) option" where
  "build cfg directories s =
     (let s0 = s\<lparr>logs := logs s @
                 [Info [Str (''Building cscope databases for '' @
                             toString_nat (length directories) @
                             '' workspace folders...'')]]\<rparr>
      in case build_loop cfg directories [] s0 of
           None \<Rightarrow> None
         | Some (res, s1) \<Rightarrow> Some (join [CHR 0x0A] res, s1))"

subsection \<open>Queries\<close>

text \<open>
  \<open>QueryType\<close> is a frozen plain object with nine properties of its own. A lookup
  \<open>QueryType[type]\<close> gives the flag for one of these nine names; for a name that every
  plain object inherits from \<open>Object.prototype\<close> it gives the inherited function or
  object; for any other name it gives \<open>undefined\<close>.
\<close>

definition QueryType :: "(string \<times> string) list" where
  "QueryType =
     [(''symbol'', ''-0''), (''definition'', ''-1''), (''callee'', ''-2''),
      (''caller'', ''-3''), (''text'', ''-4''), (''egrep'', ''-5''),
      (''file'', ''-6''), (''include'', ''-7''), (''set'', ''-8'')]"

definition Object_prototype_names :: "string list" where
  "Object_prototype_names =
     [''constructor'', ''hasOwnProperty'', ''isPrototypeOf'', ''propertyIsEnumerable'',
      ''toLocaleString'', ''toString'', ''valueOf'', ''__proto__'',
      ''__defineGetter__'', ''__defineSetter__'', ''__lookupGetter__'',
      ''__lookupSetter__'']"

definition QueryType_get :: "string \<Rightarrow> jsarg" where
  "QueryType_get ty =
     (case map_of QueryType ty of
        Some flag \<Rightarrow> JStr flag
      | None \<Rightarrow> if List.member Object_prototype_names ty then JObject ty else JUndefined)"

definition query_args :: "config \<Rightarrow> string \<Rightarrow> string \<Rightarrow> jsarg list" where
  "query_args cfg ty word =
     [JStr (queryArgs cfg), JStr ''-f'', JStr (database cfg), QueryType_get ty, JStr word]"

text \<open>
  The class \<open>Item\<close> is not among the sources; its constructor is a parameter, \<open>None\<close>
  when it throws. So are \<open>env.getCurrentDirectory()\<close>, \<open>path.relative\<close>, and the text
  that \<open>Array.prototype.join\<close> writes for an inherited function or object. The process
  of a query cannot be launched, or it exits after its output has been read line by
  line.
\<close>

record 'item query_env =
  currentDirectory :: string
  relative :: "string \<Rightarrow> string \<Rightarrow> string"
  new_Item :: "string \<Rightarrow> string \<Rightarrow> 'item option"
  inherited_text :: "string \<Rightarrow> string"

text \<open>\<open>Array.prototype.join\<close> writes an undefined element as the empty string.\<close>

definition js_string :: "'item query_env \<Rightarrow> jsarg \<Rightarrow> string" where
  "js_string env v =
     (case v of JStr x \<Rightarrow> x | JUndefined \<Rightarrow> [] | JObject n \<Rightarrow> inherited_text env n)"

datatype query_outcome = QLaunchError string | QExit "int option" "string list" string

text \<open>The \<open>line\<close> handler of \<open>querySingle\<close>, on the items and the log.\<close>

definition on_line ::
  "'item query_env \<Rightarrow> string \<Rightarrow> 'item list \<times> logentry list \<Rightarrow> string \<Rightarrow>
   'item list \<times> logentry list" where
  "on_line env parent acc line =
     (case new_Item env line parent of
        Some item \<Rightarrow> (fst acc @ [item], snd acc)
      | None \<Rightarrow> (fst acc, snd acc @ [Err [Obj], Err [Str ''cannot parse:'', Str line]]))"

definition querySingle ::
  "config \<Rightarrow> 'item query_env \<Rightarrow> string \<Rightarrow> string \<Rightarrow> string \<Rightarrow> query_outcome \<Rightarrow> Cscope \<Rightarrow>
   (string + 'item list) \<times> Cscope" where
  "querySingle cfg env ty word cwd oc s =
     (let cmd = cscope cfg;
          args = query_args cfg ty word;
          parent = relative env (currentDirectory env) cwd;
          s1 = s\<lparr>queryCmd := join '' '' (cmd # map (js_string env) args),
                 spawned := spawned s @ [(cmd, args, cwd)],
                 logs := logs s @ [Info [Str cmd, Arr args, Str cwd]]\<rparr>
      in case oc of
           QLaunchError msg \<Rightarrow>
             (Inl (trim msg), s1\<lparr>logs := logs s1 @ [Err [Str ''error:'', Str msg]]\<rparr>)
         | QExit code lines err \<Rightarrow>
             (let parsed = foldl (on_line env parent) ([], []) lines;
                  out = concat lines;
                  l1 = (if length err > 0
                        then [Err [Str (''stderr: '' @ code_string code @ [CHR 0x0A] @ err)]]
                        else []);
                  l2 = [Info [Str (''stdout: '' @ code_string code @ [CHR 0x0A] @ out)]];
                  s2 = s1\<lparr>logs := logs s1 @ snd parsed @ l1 @ l2\<rparr>
              in if code \<noteq> Some 0 then (Inl (trim err), s2)
                 else (Inr (fst parsed),
                       s2\<lparr>logs := logs s2 @ [Info [Str ''results:'', Obj]]\<rparr>)))"

definition query_failed :: "string \<Rightarrow> string \<Rightarrow> Cscope \<Rightarrow> Cscope" where
  "query_failed dir err s =
     s\<lparr>logs := logs s @ [Err [Str (''Failed to query in '' @ dir @ '':''), Str err]]\<rparr>"

fun query_loop ::
  "config \<Rightarrow> 'item query_env \<Rightarrow> string \<Rightarrow> string \<Rightarrow> (string \<times> query_outcome) list \<Rightarrow>
   'item list \<Rightarrow> Cscope \<Rightarrow> 'item list \<times> Cscope" where
  "query_loop cfg env ty word [] allResults s = (allResults, s)"
| "query_loop cfg env ty word ((dir, oc) # ds) allResults s =
     (case querySingle cfg env ty word dir oc s of
        (Inr items, s1) \<Rightarrow> query_loop cfg env ty word ds (allResults @ items) s1
      | (Inl err, s1) \<Rightarrow> query_loop cfg env ty word ds allResults (query_failed dir err s1))"

definition query ::
  "config \<Rightarrow> 'item query_env \<Rightarrow> string \<Rightarrow> string \<Rightarrow> (string \<times> query_outcome) list \<Rightarrow>
   Cscope \<Rightarrow> 'item list \<times> Cscope" where
  "query cfg env ty word directories s =
     query_loop cfg env ty word directories []
       (s\<lparr>logs := logs s @
            [Info [Str (''Querying across '' @ toString_nat (length directories) @
                        '' workspace folders...'')]]\<rparr>)"

section \<open>Literal search\<close>




section \<open>Concrete inputs\<close>

text \<open>A workspace rooted at \<open>/w\<close> in which one document, \<open>/a.c\<close>, can be opened; it has
  four lines.\<close>

definition demo_env :: vscode_env where
  "demo_env =
     \<lparr>rootPath = Some ''/w'',
      posix_join = (\<lambda>root file. root @ ''/'' @ file),
      openTextDocument =
        (\<lambda>file. if file = ''/a.c''
                then Some [''int f(void)'', ''abc a.c'', ''x a^b'', ''x = *p;'']
                else None),
      regexp_exec = regexp_fragment\<rparr>"

text \<open>A configuration, and the object after one build that failed: a call for \<open>/d1\<close>
  and its continuation, the start of the stored operation, and the exit of its process
  with code 1.\<close>

definition demo_config :: config where
  "demo_config =
     \<lparr>cscope = ''cscope'', database = ''cscope.out'', buildArgs = ''-RbU'',
      queryArgs = ''-RdL''\<rparr>"

definition failed_once :: Cscope where
  "failed_once =
     run demo_config
       [Call ''/d1'', Resume 0, Start 2, ProcClose 2 (Some 1) [] ''boom''] constructor"


section \<open>Cutting an output line into its fields\<close>

lemma index_from_append:
  "c \<notin> set xs \<Longrightarrow> index_from (xs @ c # ys) c i = int (i + length xs)"
  by (induction xs arbitrary: i) auto

lemma indexOf_at:
  assumes "drop k s = xs @ c # ys" and "c \<notin> set xs" and "k \<le> length s"
  shows "indexOf s c (int k) = int (k + length xs)"
  using assms by (simp add: indexOf_def Let_def index_from_append min_def)

lemma slice_mid:
  "slice (a @ b @ c) (int (length a)) (int (length a + length b)) = b"
  by (simp add: slice_def slice_index_def Let_def min_def)

lemma slice_from_mid:
  "slice_from (a @ b) (int (length a)) = b"
  by (simp add: slice_from_def slice_index_def Let_def min_def)

lemma parse_line_fields:
  assumes f: "CHR '' '' \<notin> set f" and g: "CHR '' '' \<notin> set g" and n: "CHR '' '' \<notin> set n"
  shows "parse_line env (f @ '' '' @ g @ '' '' @ n @ '' '' @ r) =
           (getFullPath env f, g, jsnum_minus1 (parseInt n), r)"
proof -
  define line where "line = f @ '' '' @ g @ '' '' @ n @ '' '' @ r"
  have i1: "indexOf line (CHR '' '') 0 = int (length f)"
    using indexOf_at [of 0 line f "CHR '' ''" "g @ '' '' @ n @ '' '' @ r"] f
    by (simp add: line_def)
  have i2: "indexOf line (CHR '' '') (int (length f) + 1) = int (length f + 1 + length g)"
    using indexOf_at [of "length f + 1" line g "CHR '' ''" "n @ '' '' @ r"] g
    by (simp add: line_def algebra_simps)
  have i3: "indexOf line (CHR '' '') (int (length f + 1 + length g) + 1)
              = int (length f + 1 + length g + 1 + length n)"
    using indexOf_at [of "length f + 1 + length g + 1" line n "CHR '' ''" r] n
    by (simp add: line_def algebra_simps)
  have s1: "slice line 0 (int (length f)) = f"
    using slice_mid [of "[]" f "'' '' @ g @ '' '' @ n @ '' '' @ r"] by (simp add: line_def)
  have s2: "slice line (int (length f) + 1) (int (length f + 1 + length g)) = g"
    using slice_mid [of "f @ '' ''" g "'' '' @ n @ '' '' @ r"] by (simp add: line_def algebra_simps)
  have s3: "slice line (int (length f + 1 + length g) + 1)
              (int (length f + 1 + length g + 1 + length n)) = n"
    using slice_mid [of "f @ '' '' @ g @ '' ''" n "'' '' @ r"] by (simp add: line_def algebra_simps)
  have s4: "slice_from line (int (length f + 1 + length g + 1 + length n) + 1) = r"
    using slice_from_mid [of "f @ '' '' @ g @ '' '' @ n @ '' ''" r] by (simp add: line_def algebra_simps)
  show ?thesis
    unfolding line_def [symmetric] parse_line_def Let_def i1 i2 i3 s1 s2 s3 s4 ..
qed

lemma split_append:
  "c \<notin> set xs \<Longrightarrow> split c (xs @ c # ys) = xs # split c ys"
  by (induction xs) (auto split: list.splits)

lemma setResults_cons:
  "CHR 0x0A \<notin> set l \<Longrightarrow>
     setResults env (l @ CHR 0x0A # out) st = setResults env out (process_line env l st)"
  by (simp add: setResults_def split_append)

text \<open>What one turn does, by the outcome of the try block.\<close>

lemma process_line_Some:
  "3 \<le> length line \<Longrightarrow> parse_line env line = (file, func, lnum, rst) \<Longrightarrow>
   resolve_item env (fst st) file func lnum rst = Some item \<Longrightarrow>
   process_line env line st = ((fst st)\<lparr>results := results (fst st) @ [item]\<rparr>, snd st)"
  by (simp add: process_line_def)

lemma process_line_None:
  "3 \<le> length line \<Longrightarrow> parse_line env line = (file, func, lnum, rst) \<Longrightarrow>
   resolve_item env (fst st) file func lnum rst = None \<Longrightarrow>
   process_line env line st = (fst st, snd st @ [could_not_open file])"
  by (simp add: process_line_def)

lemma resolve_item_NaN: "resolve_item env q file func NaN rst = None"
  by (simp add: resolve_item_def lineAt_def split: option.splits)

lemma new_Range_line:
  "new_Range (Num j) c d = Some r \<Longrightarrow> int (start_line r) = j \<and> int (end_line r) = j"
  by (cases "0 \<le> j") (auto simp: new_Range_def)

lemma item_range_new_CscopeItem: "item_range (new_CscopeItem env u func r rst txt) = r"
  by (simp add: new_CscopeItem_def Let_def)

lemma resolve_item_range:
  assumes "resolve_item env q file func lnum rst = Some item"
  shows "\<exists>c d. new_Range lnum c d = Some (item_range item)"
proof -
  from assms obtain c d r tx where r: "new_Range lnum c d = Some r"
    and item: "item = new_CscopeItem env file func r rst tx"
    unfolding resolve_item_def Let_def
    by (simp split: option.splits) blast
  show ?thesis using r by (auto simp: item item_range_new_CscopeItem)
qed

lemma resolve_item_line:
  assumes "resolve_item env q file func (Num j) rst = Some item"
  shows "int (start_line (item_range item)) = j \<and> int (end_line (item_range item)) = j"
  using resolve_item_range [OF assms] new_Range_line by blast

lemma resolve_item_found:
  assumes "openTextDocument env file = Some doc" and "0 \<le> k" and "k < int (length doc)"
    and "regexp_exec env (if qtype q = ''callee'' then func else pattern q) (doc ! nat k) = RxMatch i n"
  shows "resolve_item env q file func (Num k) rst =
           Some (new_CscopeItem env file func
             \<lparr>start_line = nat k, start_character = i, end_line = nat k,
              end_character = i + length (if qtype q = ''callee'' then func else pattern q)\<rparr>
             rst (doc ! nat k))"
  using assms by (simp add: resolve_item_def lineAt_def search_def new_Range_def Let_def)

lemma resolve_item_not_found:
  assumes "openTextDocument env file = Some doc" and "0 \<le> k" and "k < int (length doc)"
    and "regexp_exec env (if qtype q = ''callee'' then func else pattern q) (doc ! nat k) = RxNoMatch"
  shows "resolve_item env q file func (Num k) rst =
           Some (new_CscopeItem env file func
             \<lparr>start_line = nat k, start_character = 0, end_line = nat k, end_character = 0\<rparr>
             rst (doc ! nat k))"
  using assms by (simp add: resolve_item_def lineAt_def search_def new_Range_def Let_def)

lemma resolve_item_syntax_error:
  assumes "openTextDocument env file = Some doc" and "0 \<le> k" and "k < int (length doc)"
    and "regexp_exec env (if qtype q = ''callee'' then func else pattern q) (doc ! nat k) = RxSyntaxError"
  shows "resolve_item env q file func (Num k) rst = None"
  using assms by (simp add: resolve_item_def lineAt_def search_def new_Range_def Let_def)


section \<open>The claims about the parser\<close>

text \<open>
  Claim C7, as stated: the example line is cut into its four fields, and in general the
  fields are cut at the first three white space separators. The source looks for the
  space character only (\<open>indexOf(' ')\<close>, lines 97 to 99), so a tab separates nothing:
  in the line \<open>/a.c\<close>, tab, \<open>f 12 x y\<close> the first three white space separators
  would give the file \<open>/a.c\<close>, the symbol \<open>f\<close>, the line 11 and the remainder \<open>x y\<close>;
  the source gives the file \<open>/a.c\<close>, tab, \<open>f\<close>, the symbol \<open>12\<close>, no number, and the
  remainder \<open>y\<close>.
\<close>

theorem tab_is_not_a_separator:
  "parse_line demo_env (''/a.c'' @ [CHR 0x09] @ ''f 12 x y'')
     = (''/a.c'' @ [CHR 0x09] @ ''f'', ''12'', NaN, ''y'') \<and>
   parse_line demo_env ''/a.c f 12 x y'' = (''/a.c'', ''f'', Num 11, ''x y'')"
  by code_simp

text \<open>
  Claim C7, amended. The line \<open>/src/a.c myFunc 12 int myFunc(void) {\<close> is cut into the
  file \<open>/src/a.c\<close> (absolute already, so returned as it is), the symbol \<open>myFunc\<close>, the
  zero-based line number 11 and the remainder \<open>int myFunc(void) {\<close>. In general the
  fields are taken by position at the first three space characters: when the first
  three fields hold no space, the line \<open>f g n r\<close> gives the path of \<open>f\<close>, then \<open>g\<close>,
  then the number parsed from \<open>n\<close> minus one, then \<open>r\<close> whole, with whatever white
  space it has.
\<close>

theorem parse_line_example_and_positions:
  "parse_line env ''/src/a.c myFunc 12 int myFunc(void) {''
     = (''/src/a.c'', ''myFunc'', Num 11, ''int myFunc(void) {'') \<and>
   (CHR '' '' \<notin> set f \<and> CHR '' '' \<notin> set g \<and> CHR '' '' \<notin> set n \<longrightarrow>
      parse_line env (f @ '' '' @ g @ '' '' @ n @ '' '' @ r)
        = (getFullPath env f, g, jsnum_minus1 (parseInt n), r))"
proof -
  have p: "parseInt ''12'' = Num 12" by code_simp
  have "parse_line env (''/src/a.c'' @ '' '' @ ''myFunc'' @ '' '' @ ''12'' @ '' '' @ ''int myFunc(void) {'')
          = (getFullPath env ''/src/a.c'', ''myFunc'', jsnum_minus1 (parseInt ''12''), ''int myFunc(void) {'')"
    by (rule parse_line_fields) simp_all
  then have "parse_line env ''/src/a.c myFunc 12 int myFunc(void) {''
     = (''/src/a.c'', ''myFunc'', Num 11, ''int myFunc(void) {'')"
    by (simp add: p getFullPath_def isAbsolute_def jsnum_minus1_def)
  then show ?thesis
    using parse_line_fields by blast
qed

theorem parse_line_positions_witness:
  "CHR '' '' \<notin> set ''lib/b.c'' \<and> CHR '' '' \<notin> set ''g'' \<and> CHR '' '' \<notin> set ''0x10'' \<and>
   parse_line demo_env ''lib/b.c g 0x10   a  b ''
     = (''/w/lib/b.c'', ''g'', Num 15, ''  a  b '')"
proof -
  have p: "parseInt ''0x10'' = Num 16" by code_simp
  have g: "getFullPath demo_env ''lib/b.c'' = ''/w/lib/b.c''" by code_simp
  have h: "CHR '' '' \<notin> set ''lib/b.c'' \<and> CHR '' '' \<notin> set ''g'' \<and> CHR '' '' \<notin> set ''0x10''"
    by simp
  from parse_line_example_and_positions [of demo_env "''lib/b.c''" "''g''" "''0x10''" "''  a  b ''"] h
  have "parse_line demo_env (''lib/b.c'' @ '' '' @ ''g'' @ '' '' @ ''0x10'' @ '' '' @ ''  a  b '')
     = (getFullPath demo_env ''lib/b.c'', ''g'', jsnum_minus1 (parseInt ''0x10''), ''  a  b '')"
    by blast
  then show ?thesis using h by (simp add: p g jsnum_minus1_def)
qed

text \<open>
  Claim C5, as stated: a line of at least three characters stores the reported line
  number minus one, and a line whose number does not parse, or that has fewer than three
  separators, is skipped while the rest of the batch goes on. The source has no check on
  the separators: when \<open>indexOf\<close> finds none it returns \<open>-1\<close>, and \<open>slice\<close> then cuts
  other pieces of the line. The line \<open>/a.c f 12\<close> has two separators and reports line
  12; its number field is cut as \<open>1\<close>, and an item for line 0 of \<open>/a.c\<close> is produced,
  with no warning.
\<close>

theorem short_line_not_skipped:
  "length (filter (\<lambda>c. c = CHR '' '') ''/a.c f 12'') = 2 \<and>
   3 \<le> length ''/a.c f 12'' \<and>
   map (\<lambda>i. (uri i, name i, start_line (item_range i)))
     (results (fst (setResults demo_env ''/a.c f 12'' (new_CscopeQuery ''symbol'' ''f'', []))))
      = [(''/a.c'', ''f'', 0)] \<and>
   snd (setResults demo_env ''/a.c f 12'' (new_CscopeQuery ''symbol'' ''f'', [])) = []"
  by code_simp

text \<open>
  Claim C5, amended. For a line \<open>f g n r\<close> with three separators (no space in \<open>f\<close>, \<open>g\<close>
  and \<open>n\<close>): when \<open>parseInt\<close> reads \<open>n\<close> as \<open>k\<close>, the line either adds the warning and
  no item or adds exactly one item, on line \<open>k - 1\<close>; when \<open>n\<close> does not parse, it adds
  the warning \<open>Could not open\<close> and no item; and in both cases the lines that follow it
  in the output are processed, from the state this line leaves.
\<close>

theorem line_number_of_parsed_line:
  assumes "CHR '' '' \<notin> set f" and "CHR '' '' \<notin> set g" and "CHR '' '' \<notin> set n"
  shows
    "(parseInt n = Num k \<longrightarrow>
        process_line env (f @ '' '' @ g @ '' '' @ n @ '' '' @ r) st
          = (fst st, snd st @ [could_not_open (getFullPath env f)]) \<or>
        (\<exists>item. process_line env (f @ '' '' @ g @ '' '' @ n @ '' '' @ r) st
                  = ((fst st)\<lparr>results := results (fst st) @ [item]\<rparr>, snd st) \<and>
                int (start_line (item_range item)) = k - 1 \<and>
                int (end_line (item_range item)) = k - 1)) \<and>
     (parseInt n = NaN \<longrightarrow>
        process_line env (f @ '' '' @ g @ '' '' @ n @ '' '' @ r) st
          = (fst st, snd st @ [could_not_open (getFullPath env f)])) \<and>
     (CHR 0x0A \<notin> set (f @ '' '' @ g @ '' '' @ n @ '' '' @ r) \<longrightarrow>
        setResults env ((f @ '' '' @ g @ '' '' @ n @ '' '' @ r) @ CHR 0x0A # out) st
          = setResults env out (process_line env (f @ '' '' @ g @ '' '' @ n @ '' '' @ r) st))"
proof -
  define line where "line = f @ '' '' @ g @ '' '' @ n @ '' '' @ r"
  have len: "3 \<le> length line" by (simp add: line_def)
  have fields: "parse_line env line = (getFullPath env f, g, jsnum_minus1 (parseInt n), r)"
    unfolding line_def using assms by (rule parse_line_fields)
  have a: "process_line env line st = (fst st, snd st @ [could_not_open (getFullPath env f)]) \<or>
        (\<exists>item. process_line env line st
                  = ((fst st)\<lparr>results := results (fst st) @ [item]\<rparr>, snd st) \<and>
                int (start_line (item_range item)) = k - 1 \<and>
                int (end_line (item_range item)) = k - 1)"
    if k: "parseInt n = Num k"
  proof (cases "resolve_item env (fst st) (getFullPath env f) g (Num (k - 1)) r")
    case None
    then show ?thesis
      using process_line_None [OF len, of env "getFullPath env f" g "Num (k - 1)" r st] fields k
      by (simp add: jsnum_minus1_def)
  next
    case (Some item)
    then have "process_line env line st = ((fst st)\<lparr>results := results (fst st) @ [item]\<rparr>, snd st)"
      using process_line_Some [OF len, of env "getFullPath env f" g "Num (k - 1)" r st item] fields k
      by (simp add: jsnum_minus1_def)
    then show ?thesis using resolve_item_line [OF Some] by blast
  qed
  have b: "process_line env line st = (fst st, snd st @ [could_not_open (getFullPath env f)])"
    if "parseInt n = NaN"
    using process_line_None [OF len, of env "getFullPath env f" g NaN r st] fields that
    by (simp add: jsnum_minus1_def resolve_item_NaN)
  have c: "setResults env (line @ CHR 0x0A # out) st = setResults env out (process_line env line st)"
    if "CHR 0x0A \<notin> set line"
    using that by (rule setResults_cons)
  show ?thesis
    unfolding line_def [symmetric] using a b c by blast
qed

theorem line_number_of_parsed_line_witness:
  "CHR '' '' \<notin> set ''/a.c'' \<and> CHR '' '' \<notin> set ''f'' \<and> CHR '' '' \<notin> set ''2'' \<and> CHR '' '' \<notin> set ''x'' \<and>
   parseInt ''2'' = Num 2 \<and> parseInt ''x'' = NaN \<and>
   CHR 0x0A \<notin> set ''/a.c f x abc a.c'' \<and>
   map (\<lambda>i. start_line (item_range i))
     (results (fst (process_line demo_env ''/a.c f 2 abc a.c'' (new_CscopeQuery ''symbol'' ''a'', [])))) = [1] \<and>
   process_line demo_env ''/a.c f x abc a.c'' (new_CscopeQuery ''symbol'' ''a'', [])
     = (new_CscopeQuery ''symbol'' ''a'', [could_not_open ''/a.c'']) \<and>
   setResults demo_env (''/a.c f x abc a.c'' @ CHR 0x0A # ''/a.c f 2 abc a.c'') (new_CscopeQuery ''symbol'' ''a'', [])
     = setResults demo_env ''/a.c f 2 abc a.c''
         (process_line demo_env ''/a.c f x abc a.c'' (new_CscopeQuery ''symbol'' ''a'', []))"
proof -
  have h: "CHR '' '' \<notin> set ''/a.c''" "CHR '' '' \<notin> set ''f''" "CHR '' '' \<notin> set ''2''"
    "CHR '' '' \<notin> set ''x''" by simp_all
  have p: "parseInt ''2'' = Num 2" "parseInt ''x'' = NaN" by code_simp+
  have nl: "CHR 0x0A \<notin> set ''/a.c f x abc a.c''" by simp
  have good: "map (\<lambda>i. start_line (item_range i))
     (results (fst (process_line demo_env ''/a.c f 2 abc a.c'' (new_CscopeQuery ''symbol'' ''a'', [])))) = [1]"
    by code_simp
  have g: "getFullPath demo_env ''/a.c'' = ''/a.c''" by code_simp
  note t = line_number_of_parsed_line [OF h(1) h(2) h(4), of x demo_env "''abc a.c''" "(new_CscopeQuery ''symbol'' ''a'', [])" "''/a.c f 2 abc a.c''"]
  have bad: "process_line demo_env ''/a.c f x abc a.c'' (new_CscopeQuery ''symbol'' ''a'', [])
     = (new_CscopeQuery ''symbol'' ''a'', [could_not_open ''/a.c''])"
    using t p(2) by (simp add: g)
  have cont: "setResults demo_env (''/a.c f x abc a.c'' @ CHR 0x0A # ''/a.c f 2 abc a.c'') (new_CscopeQuery ''symbol'' ''a'', [])
     = setResults demo_env ''/a.c f 2 abc a.c''
         (process_line demo_env ''/a.c f x abc a.c'' (new_CscopeQuery ''symbol'' ''a'', []))"
    using t nl by simp
  show ?thesis using h p nl good bad cont by blast
qed


section \<open>The claims about the highlight\<close>

text \<open>
  Claim C6, as stated: for every parsed line whose file opens, the text of the target
  line is searched for the symbol (kind \<open>callee\<close>) or for the pattern (any other kind);
  a match gives the highlight from its start to its start plus its length, no match
  gives the highlight \<open>[0, 0]\<close>, and the item is produced either way. Three lines for
  the document \<open>/a.c\<close>, which opens, show otherwise. The line that reports line 9 of
  this four-line document produces no item. The pattern \<open>*p\<close> is not a regular
  expression, so \<open>search\<close> throws and the line produces no item. The pattern \<open>^ab\<close>
  matches the two characters \<open>ab\<close> at index 0, and the highlight ends at column 3: the
  end is the start plus the length of the pattern, not of the match.
\<close>

theorem highlight_dropped_or_longer_than_match:
  "openTextDocument demo_env ''/a.c'' \<noteq> None \<and>
   process_line demo_env ''/a.c f 9 x = *p;'' (new_CscopeQuery ''symbol'' ''f'', [])
     = (new_CscopeQuery ''symbol'' ''f'', [could_not_open ''/a.c'']) \<and>
   process_line demo_env ''/a.c f 4 x = *p;'' (new_CscopeQuery ''text'' ''*p'', [])
     = (new_CscopeQuery ''text'' ''*p'', [could_not_open ''/a.c'']) \<and>
   regexp_fragment ''^ab'' ''abc a.c'' = RxMatch 0 2 \<and>
   map item_range
     (results (fst (process_line demo_env ''/a.c f 2 abc a.c'' (new_CscopeQuery ''egrep'' ''^ab'', []))))
     = [\<lparr>start_line = 1, start_character = 0, end_line = 1, end_character = 3\<rparr>]"
  by code_simp

text \<open>
  Claim C6, amended. For a line of at least three characters whose file opens and whose
  line number \<open>k\<close> is a line of that document: the text of line \<open>k\<close> is searched for the
  symbol when the kind is \<open>callee\<close> and for the pattern otherwise; when the search
  finds a match at index \<open>i\<close>, the item is produced with the highlight from \<open>i\<close> to \<open>i\<close>
  plus the length of the searched string; when it finds none, the item is produced with
  the highlight \<open>[0, 0]\<close>. This holds whatever the regular expression engine is.
\<close>

theorem highlight_resolution:
  assumes "3 \<le> length line"
    and "parse_line env line = (file, func, Num k, rst)"
    and "openTextDocument env file = Some doc"
    and "0 \<le> k" and "k < int (length doc)"
  shows
    "(regexp_exec env (if qtype q = ''callee'' then func else pattern q) (doc ! nat k) = RxMatch i n \<longrightarrow>
        process_line env line (q, ws) =
          (q\<lparr>results := results q @
              [new_CscopeItem env file func
                 \<lparr>start_line = nat k, start_character = i, end_line = nat k,
                  end_character = i + length (if qtype q = ''callee'' then func else pattern q)\<rparr>
                 rst (doc ! nat k)]\<rparr>, ws)) \<and>
     (regexp_exec env (if qtype q = ''callee'' then func else pattern q) (doc ! nat k) = RxNoMatch \<longrightarrow>
        process_line env line (q, ws) =
          (q\<lparr>results := results q @
              [new_CscopeItem env file func
                 \<lparr>start_line = nat k, start_character = 0, end_line = nat k, end_character = 0\<rparr>
                 rst (doc ! nat k)]\<rparr>, ws))"
proof (intro conjI impI)
  assume m: "regexp_exec env (if qtype q = ''callee'' then func else pattern q) (doc ! nat k) = RxMatch i n"
  show "process_line env line (q, ws) =
          (q\<lparr>results := results q @
              [new_CscopeItem env file func
                 \<lparr>start_line = nat k, start_character = i, end_line = nat k,
                  end_character = i + length (if qtype q = ''callee'' then func else pattern q)\<rparr>
                 rst (doc ! nat k)]\<rparr>, ws)"
    using process_line_Some [OF assms(1) assms(2), of "(q, ws)"]
      resolve_item_found [OF assms(3) assms(4) assms(5) m, of rst]
    by simp
next
  assume m: "regexp_exec env (if qtype q = ''callee'' then func else pattern q) (doc ! nat k) = RxNoMatch"
  show "process_line env line (q, ws) =
          (q\<lparr>results := results q @
              [new_CscopeItem env file func
                 \<lparr>start_line = nat k, start_character = 0, end_line = nat k, end_character = 0\<rparr>
                 rst (doc ! nat k)]\<rparr>, ws)"
    using process_line_Some [OF assms(1) assms(2), of "(q, ws)"]
      resolve_item_not_found [OF assms(3) assms(4) assms(5) m, of rst]
    by simp
qed


theorem highlight_resolution_witness:
  "3 \<le> length ''/a.c f 1 int f(void)'' \<and>
   parse_line demo_env ''/a.c f 1 int f(void)'' = (''/a.c'', ''f'', Num 0, ''int f(void)'') \<and>
   openTextDocument demo_env ''/a.c'' = Some [''int f(void)'', ''abc a.c'', ''x a^b'', ''x = *p;''] \<and>
   regexp_exec demo_env ''f'' ''int f(void)'' = RxMatch 4 1 \<and>
   regexp_exec demo_env ''main'' ''int f(void)'' = RxNoMatch \<and>
   map item_range
     (results (fst (process_line demo_env ''/a.c f 1 int f(void)'' (new_CscopeQuery ''callee'' ''main'', []))))
     = [\<lparr>start_line = 0, start_character = 4, end_line = 0, end_character = 5\<rparr>] \<and>
   map item_range
     (results (fst (process_line demo_env ''/a.c f 1 int f(void)'' (new_CscopeQuery ''symbol'' ''main'', []))))
     = [\<lparr>start_line = 0, start_character = 0, end_line = 0, end_character = 0\<rparr>]"
proof -
  have len: "3 \<le> length ''/a.c f 1 int f(void)''" by simp
  have pl: "parse_line demo_env ''/a.c f 1 int f(void)'' = (''/a.c'', ''f'', Num 0, ''int f(void)'')"
    by code_simp
  have od: "openTextDocument demo_env ''/a.c'' = Some [''int f(void)'', ''abc a.c'', ''x a^b'', ''x = *p;'']"
    by (simp add: demo_env_def)
  have m1: "regexp_exec demo_env ''f'' ''int f(void)'' = RxMatch 4 1" by code_simp
  have m2: "regexp_exec demo_env ''main'' ''int f(void)'' = RxNoMatch" by code_simp
  have k: "(0::int) \<le> 0" "(0::int) < int (length [''int f(void)'', ''abc a.c'', ''x a^b'', ''x = *p;''])"
    by simp_all
  have a: "map item_range
     (results (fst (process_line demo_env ''/a.c f 1 int f(void)'' (new_CscopeQuery ''callee'' ''main'', []))))
     = [\<lparr>start_line = 0, start_character = 4, end_line = 0, end_character = 5\<rparr>]"
    using highlight_resolution [OF len pl od k, of "new_CscopeQuery ''callee'' ''main''" 4 1 "[]"] m1
    by (simp add: new_CscopeQuery_def item_range_new_CscopeItem)
  have b: "map item_range
     (results (fst (process_line demo_env ''/a.c f 1 int f(void)'' (new_CscopeQuery ''symbol'' ''main'', []))))
     = [\<lparr>start_line = 0, start_character = 0, end_line = 0, end_character = 0\<rparr>]"
    using highlight_resolution [OF len pl od k, of "new_CscopeQuery ''symbol'' ''main''" 0 0 "[]"] m2
    by (simp add: new_CscopeQuery_def item_range_new_CscopeItem)
  show ?thesis using len pl od m1 m2 a b by blast
qed




section \<open>The claims about queries\<close>





section \<open>What the events leave unchanged\<close>

lemma heap_buildSingle_call: "heap (buildSingle_call cwd s) = heap s"
  by (simp add: buildSingle_call_def Let_def)

lemma buildQueue_buildSingle_call: "buildQueue (buildSingle_call cwd s) = buildQueue s"
  by (simp add: buildSingle_call_def Let_def)

lemma heap_buildSingle_resume:
  "p < length (heap s) \<Longrightarrow> heap (buildSingle_resume c s) ! p = heap s ! p"
  by (simp add: buildSingle_resume_def Let_def nth_append split: call.splits)

lemma length_heap_buildSingle_resume:
  "length (heap s) \<le> length (heap (buildSingle_resume c s))"
  by (simp add: buildSingle_resume_def Let_def split: call.splits)

lemma length_buildQueue_buildSingle_resume:
  "length (buildQueue (buildSingle_resume c s)) = length (buildQueue s)"
  by (simp add: buildSingle_resume_def Let_def split: call.splits)

lemma buildQueue_start: "buildQueue (start cfg p s) = buildQueue s"
  by (simp add: start_def Let_def split: promise.splits)

lemma buildQueue_proc_error: "buildQueue (proc_error p msg s) = buildQueue s"
  by (simp add: proc_error_def split: promise.splits)

lemma buildQueue_proc_close: "buildQueue (proc_close p code out err s) = buildQueue s"
  by (simp add: proc_close_def Let_def split: promise.splits)

lemma length_buildQueue_step: "length (buildQueue (step cfg s e)) = length (buildQueue s)"
  by (cases e)
     (simp_all add: buildQueue_buildSingle_call length_buildQueue_buildSingle_resume
        buildQueue_start buildQueue_proc_error buildQueue_proc_close)

lemma length_buildQueue_run: "length (buildQueue (run cfg evs s)) = length (buildQueue s)"
  unfolding run_def
  by (induction evs arbitrary: s) (simp_all add: length_buildQueue_step)

section \<open>Settled and blocked operations\<close>

text \<open>A settled promise stays as it is.\<close>

lemma start_settled: "is_settled (heap s ! p) \<Longrightarrow> start cfg p s = s"
  by (cases "heap s ! p") (simp_all add: start_def is_settled_def)

lemma proc_error_settled: "is_settled (heap s ! p) \<Longrightarrow> proc_error p msg s = s"
  by (cases "heap s ! p") (simp_all add: proc_error_def is_settled_def)

lemma proc_close_settled: "is_settled (heap s ! p) \<Longrightarrow> proc_close p code out err s = s"
  by (cases "heap s ! p") (simp_all add: proc_close_def is_settled_def)

lemma proc_error_waiting: "heap s ! p = Waiting deps cwd \<Longrightarrow> proc_error p msg s = s"
  by (simp add: proc_error_def)

lemma proc_close_waiting: "heap s ! p = Waiting deps cwd \<Longrightarrow> proc_close p code out err s = s"
  by (simp add: proc_close_def)

lemma start_blocked:
  "heap s ! p = Waiting deps cwd \<Longrightarrow> \<not> list_all (is_fulfilled (heap s)) deps \<Longrightarrow>
   start cfg p s = s"
  by (simp add: start_def)

lemma heap_start_nth:
  "q \<noteq> p \<Longrightarrow> heap (start cfg p s) ! q = heap s ! q"
  by (simp add: start_def Let_def split: promise.splits)

lemma length_heap_start: "length (heap (start cfg p s)) = length (heap s)"
  by (simp add: start_def Let_def split: promise.splits)

lemma heap_proc_error_nth:
  "q \<noteq> p \<Longrightarrow> heap (proc_error p msg s) ! q = heap s ! q"
  by (simp add: proc_error_def split: promise.splits)

lemma heap_proc_close_nth:
  "q \<noteq> p \<Longrightarrow> heap (proc_close p code out err s) ! q = heap s ! q"
  by (simp add: proc_close_def Let_def split: promise.splits)

lemma length_heap_proc_error: "length (heap (proc_error p msg s)) = length (heap s)"
  by (simp add: proc_error_def split: promise.splits)

lemma length_heap_proc_close: "length (heap (proc_close p code out err s)) = length (heap s)"
  by (simp add: proc_close_def Let_def split: promise.splits)

lemma length_heap_step: "length (heap s) \<le> length (heap (step cfg s e))"
  by (cases e)
     (simp_all add: heap_buildSingle_call length_heap_buildSingle_resume length_heap_start
        length_heap_proc_error length_heap_proc_close)

lemma settled_step:
  assumes "q < length (heap s)" and "is_settled (heap s ! q)"
  shows "heap (step cfg s e) ! q = heap s ! q"
proof (cases e)
  case (Call cwd)
  then show ?thesis by (simp add: heap_buildSingle_call)
next
  case (Resume c)
  then show ?thesis using assms(1) by (simp add: heap_buildSingle_resume)
next
  case (Start p)
  show ?thesis
  proof (cases "q = p")
    case True
    then have "start cfg p s = s"
      using assms(2) by (simp add: start_settled)
    then show ?thesis using Start by simp
  next
    case False
    then show ?thesis using Start by (simp add: heap_start_nth)
  qed
next
  case (ProcError p msg)
  show ?thesis
  proof (cases "q = p")
    case True
    then have "proc_error p msg s = s"
      using assms(2) by (simp add: proc_error_settled)
    then show ?thesis using ProcError by simp
  next
    case False
    then show ?thesis using ProcError by (simp add: heap_proc_error_nth)
  qed
next
  case (ProcClose p code out err)
  show ?thesis
  proof (cases "q = p")
    case True
    then have "proc_close p code out err s = s"
      using assms(2) by (simp add: proc_close_settled)
    then show ?thesis using ProcClose by simp
  next
    case False
    then show ?thesis using ProcClose by (simp add: heap_proc_close_nth)
  qed
qed

lemma settled_run:
  "q < length (heap s) \<Longrightarrow> is_settled (heap s ! q) \<Longrightarrow> heap (run cfg evs s) ! q = heap s ! q"
proof (induction evs arbitrary: s)
  case Nil
  then show ?case by (simp add: run_def)
next
  case (Cons e evs)
  have 1: "heap (step cfg s e) ! q = heap s ! q"
    using Cons.prems by (rule settled_step)
  have 2: "q < length (heap (step cfg s e))"
    using Cons.prems(1) length_heap_step [of s cfg e] by simp
  have "heap (run cfg evs (step cfg s e)) ! q = heap (step cfg s e) ! q"
    using 2 Cons.prems(2) 1 by (intro Cons.IH) simp_all
  then show ?case using 1 by (simp add: run_def)
qed

text \<open>An operation that waits for a rejected one stays waiting, whatever happens.\<close>

lemma waiting_on_rejected_step:
  assumes p: "p < length (heap s)" and w: "heap s ! p = Waiting deps cwd"
    and d: "d \<in> set deps" and dl: "d < length (heap s)" and r: "heap s ! d = Rejected e"
  shows "heap (step cfg s ev) ! p = Waiting deps cwd"
proof -
  have "\<not> is_fulfilled (heap s) d"
    using r by (simp add: is_fulfilled_def)
  then have nf: "\<not> list_all (is_fulfilled (heap s)) deps"
    using d by (auto simp: list_all_iff)
  show ?thesis
  proof (cases ev)
    case (Call c)
    then show ?thesis using w by (simp add: heap_buildSingle_call)
  next
    case (Resume c)
    then show ?thesis using p w by (simp add: heap_buildSingle_resume)
  next
    case (Start q)
    show ?thesis
    proof (cases "q = p")
      case True
      then show ?thesis using Start w nf by (simp add: start_blocked)
    next
      case False
      then show ?thesis using Start w by (simp add: heap_start_nth)
    qed
  next
    case (ProcError q msg)
    show ?thesis
    proof (cases "q = p")
      case True
      then have "proc_error q msg s = s" using w by (simp add: proc_error_waiting)
      then show ?thesis using ProcError w by simp
    next
      case False
      then show ?thesis using ProcError w by (simp add: heap_proc_error_nth)
    qed
  next
    case (ProcClose q code out err)
    show ?thesis
    proof (cases "q = p")
      case True
      then have "proc_close q code out err s = s" using w by (simp add: proc_close_waiting)
      then show ?thesis using ProcClose w by simp
    next
      case False
      then show ?thesis using ProcClose w by (simp add: heap_proc_close_nth)
    qed
  qed
qed

lemma waiting_on_rejected_run:
  assumes "p < length (heap s)" and "heap s ! p = Waiting deps cwd"
    and "d \<in> set deps" and "d < length (heap s)" and "heap s ! d = Rejected e"
  shows "heap (run cfg evs s) ! p = Waiting deps cwd"
  using assms
proof (induction evs arbitrary: s)
  case Nil
  then show ?case by (simp add: run_def)
next
  case (Cons ev evs)
  let ?t = "step cfg s ev"
  have len: "length (heap s) \<le> length (heap ?t)" by (rule length_heap_step)
  have w: "heap ?t ! p = Waiting deps cwd"
    using Cons.prems by (rule waiting_on_rejected_step)
  have r: "heap ?t ! d = Rejected e"
    using settled_step [of d s cfg ev] Cons.prems by (simp add: is_settled_def)
  have "heap (run cfg evs ?t) ! p = Waiting deps cwd"
    using len Cons.prems w r by (intro Cons.IH [of ?t]) simp_all
  then show ?case by (simp add: run_def)
qed



section \<open>The claims about the build queue\<close>

text \<open>An uninterrupted call that finds both slots pending.\<close>

lemma awaited_call_queue_full:
  assumes "buildQueue s = [a, b]"
    and "promiseState (heap s) a = ''pending''" and "promiseState (heap s) b = ''pending''"
  shows "fst (buildSingle_awaited cwd s) = Returned (Inl ''queue full'') \<and>
         heap (snd (buildSingle_awaited cwd s)) = heap s \<and>
         buildQueue (snd (buildSingle_awaited cwd s)) = buildQueue s \<and>
         spawned (snd (buildSingle_awaited cwd s)) = spawned s \<and>
         buildCmd (snd (buildSingle_awaited cwd s)) = buildCmd s"
  using assms
  by (simp add: buildSingle_awaited_def buildSingle_call_def buildSingle_resume_def Let_def
        nth_append numeral_2_eq_2)

text \<open>
  Claim C2 says that a submission fails with \<open>queue full\<close> when every slot holds a
  pending operation, and in particular that a third submission fails while two earlier
  operations are unsettled, with no stored operation replaced. Three calls that nothing
  interrupts behave so: the third returns \<open>queue full\<close>. But a call looks at a slot
  when it is called and writes the slot only after its \<open>await\<close>. Three calls made before
  any of them goes on are all suspended having seen slot 0 fulfilled. When they go on,
  the first stores promise 2 in slot 0, the second stores promise 3 in slot 0 over the
  pending promise 2, the third stores promise 4 in slot 0 over the pending promise 3:
  all three are accepted, none returns \<open>queue full\<close>, and slot 1 is never used.
\<close>

theorem same_turn_submissions_all_accepted:
  "fst (buildSingle_awaited ''/d3''
          (snd (buildSingle_awaited ''/d2'' (snd (buildSingle_awaited ''/d1'' constructor)))))
     = Returned (Inl ''queue full'') \<and>
   run demo_config [Call ''/d1'', Call ''/d2'', Call ''/d3''] constructor
     = constructor\<lparr>calls := [Suspended ''/d1'' 2 0 ''fulfilled'', Suspended ''/d2'' 2 0 ''fulfilled'',
                               Suspended ''/d3'' 2 0 ''fulfilled'']\<rparr> \<and>
   buildQueue (run demo_config
       [Call ''/d1'', Call ''/d2'', Call ''/d3'', Resume 0] constructor) = [2, 1] \<and>
   buildQueue (run demo_config
       [Call ''/d1'', Call ''/d2'', Call ''/d3'', Resume 0, Resume 1] constructor) = [3, 1] \<and>
   calls (run demo_config
       [Call ''/d1'', Call ''/d2'', Call ''/d3'', Resume 0, Resume 1, Resume 2] constructor)
     = [Returned (Inr 2), Returned (Inr 3), Returned (Inr 4)] \<and>
   buildQueue (run demo_config
       [Call ''/d1'', Call ''/d2'', Call ''/d3'', Resume 0, Resume 1, Resume 2] constructor) = [4, 1] \<and>
   heap (run demo_config
       [Call ''/d1'', Call ''/d2'', Call ''/d3'', Resume 0, Resume 1, Resume 2] constructor)
     = [Fulfilled [], Fulfilled [], Waiting [0, 1] ''/d1'', Waiting [2, 1] ''/d2'',
        Waiting [3, 1] ''/d3'']"
  by code_simp

text \<open>
  Claim C8 says that the queue has two slots for as long as the object lives, that the
  constructor fills both with settled operations so that the first submissions go ahead
  at once, that an accepted submission writes one slot, and that at most two operations
  are outstanding. The queue does keep its two slots whatever happens, the constructor's
  promises are fulfilled, and the operation of a first submission starts as soon as it
  is stored. But four calls made before any of them goes on are all accepted: four
  operations are outstanding together, each later one stored in slot 0 over the pending
  one before it. Already the second of two such calls overwrites a slot whose operation
  is pending.
\<close>

theorem four_operations_outstanding:
  "length (buildQueue (run cfg evs constructor)) = 2 \<and>
   map (promiseState (heap constructor)) (buildQueue constructor) = [''fulfilled'', ''fulfilled''] \<and>
   heap (run demo_config [Call ''/a'', Resume 0, Start 2] constructor) ! 2 = Running ''/a'' \<and>
   spawned (run demo_config [Call ''/a'', Resume 0, Start 2] constructor)
     = [(''cscope'', [JStr ''-RbU'', JStr ''-f'', JStr ''cscope.out''], ''/a'')] \<and>
   outstanding (run demo_config
       [Call ''/a'', Call ''/b'', Call ''/c'', Call ''/d'', Resume 0, Resume 1, Resume 2, Resume 3]
       constructor) = [2, 3, 4, 5] \<and>
   calls (run demo_config
       [Call ''/a'', Call ''/b'', Call ''/c'', Call ''/d'', Resume 0, Resume 1, Resume 2, Resume 3]
       constructor) = [Returned (Inr 2), Returned (Inr 3), Returned (Inr 4), Returned (Inr 5)] \<and>
   buildQueue (run demo_config
       [Call ''/a'', Call ''/b'', Call ''/c'', Call ''/d'', Resume 0, Resume 1, Resume 2, Resume 3]
       constructor) = [5, 1] \<and>
   map (promiseState (heap (run demo_config [Call ''/a'', Call ''/b'', Resume 0] constructor)))
     (buildQueue (run demo_config [Call ''/a'', Call ''/b'', Resume 0] constructor))
     = [''pending'', ''fulfilled''] \<and>
   buildQueue (run demo_config [Call ''/a'', Call ''/b'', Resume 0, Resume 1] constructor) = [3, 1]"
proof -
  have a: "length (buildQueue (run cfg evs constructor)) = 2"
    by (simp add: length_buildQueue_run constructor_def)
  have b: "map (promiseState (heap constructor)) (buildQueue constructor) = [''fulfilled'', ''fulfilled'']"
    by code_simp
  have c: "heap (run demo_config [Call ''/a'', Resume 0, Start 2] constructor) ! 2 = Running ''/a''"
    by code_simp
  have d: "spawned (run demo_config [Call ''/a'', Resume 0, Start 2] constructor)
     = [(''cscope'', [JStr ''-RbU'', JStr ''-f'', JStr ''cscope.out''], ''/a'')]"
    by code_simp
  have e: "outstanding (run demo_config
       [Call ''/a'', Call ''/b'', Call ''/c'', Call ''/d'', Resume 0, Resume 1, Resume 2, Resume 3]
       constructor) = [2, 3, 4, 5]"
    by code_simp
  have f: "calls (run demo_config
       [Call ''/a'', Call ''/b'', Call ''/c'', Call ''/d'', Resume 0, Resume 1, Resume 2, Resume 3]
       constructor) = [Returned (Inr 2), Returned (Inr 3), Returned (Inr 4), Returned (Inr 5)]"
    by code_simp
  have g: "buildQueue (run demo_config
       [Call ''/a'', Call ''/b'', Call ''/c'', Call ''/d'', Resume 0, Resume 1, Resume 2, Resume 3]
       constructor) = [5, 1]"
    by code_simp
  have h: "map (promiseState (heap (run demo_config [Call ''/a'', Call ''/b'', Resume 0] constructor)))
     (buildQueue (run demo_config [Call ''/a'', Call ''/b'', Resume 0] constructor))
     = [''pending'', ''fulfilled'']"
    by code_simp
  have i: "buildQueue (run demo_config [Call ''/a'', Call ''/b'', Resume 0, Resume 1] constructor) = [3, 1]"
    by code_simp
  show ?thesis using a b c d e f g h i by blast
qed

text \<open>
  Claim C1 says that an accepted submission waits for the operations that were pending
  when it was made, whether they then succeed or fail, that operations settled before
  never block it, and that it then spawns the build. On the object \<open>failed_once\<close> no
  slot is pending: slot 0 holds the rejected operation of the failed build, slot 1 a
  fulfilled one. The submission for \<open>/d2\<close> is accepted, and the new operation waits
  for both slots, the rejected one included: the \<open>filter\<close> with an async predicate
  keeps every slot. \<open>Promise.all\<close> of a rejected promise is rejected and the callback
  that spawns is given to \<open>then\<close> alone, so whatever happens afterwards the operation
  is still waiting: its process is never spawned and it never settles.
\<close>

theorem submission_after_failure_never_starts:
  "map (promiseState (heap failed_once)) (buildQueue failed_once) = [''rejected'', ''fulfilled''] \<and>
   filter (\<lambda>p. promiseState (heap failed_once) p = ''pending'') (buildQueue failed_once) = [] \<and>
   fst (buildSingle_awaited ''/d2'' failed_once) = Returned (Inr 3) \<and>
   heap (snd (buildSingle_awaited ''/d2'' failed_once)) ! 3 = Waiting [2, 1] ''/d2'' \<and>
   heap (run cfg evs (snd (buildSingle_awaited ''/d2'' failed_once))) ! 3 = Waiting [2, 1] ''/d2'' \<and>
   spawned (snd (buildSingle_awaited ''/d2'' failed_once))
     = [(''cscope'', [JStr ''-RbU'', JStr ''-f'', JStr ''cscope.out''], ''/d1'')]"
proof -
  define t where "t = snd (buildSingle_awaited ''/d2'' failed_once)"
  have a: "map (promiseState (heap failed_once)) (buildQueue failed_once) = [''rejected'', ''fulfilled'']"
    by code_simp
  have b: "filter (\<lambda>p. promiseState (heap failed_once) p = ''pending'') (buildQueue failed_once) = []"
    by code_simp
  have c: "fst (buildSingle_awaited ''/d2'' failed_once) = Returned (Inr 3)" by code_simp
  have h: "heap t = [Fulfilled [], Fulfilled [], Rejected ''boom'', Waiting [2, 1] ''/d2'']"
    unfolding t_def by code_simp
  have sp: "spawned t = [(''cscope'', [JStr ''-RbU'', JStr ''-f'', JStr ''cscope.out''], ''/d1'')]"
    unfolding t_def by code_simp
  have "heap (run cfg evs t) ! 3 = Waiting [2, 1] ''/d2''"
    by (rule waiting_on_rejected_run [where d = 2 and e = "''boom''"]) (simp_all add: h)
  then show ?thesis
    unfolding t_def [symmetric] using a b c h sp by simp
qed

section \<open>The claims about \<open>build\<close>\<close>

text \<open>
  Claim C3 says that \<open>build\<close> and \<open>query\<close> always return, with the failure of a
  directory caught and logged. \<open>query\<close> is a total function of the model. \<open>build\<close> over
  two directories, where the tool cannot be launched for the first, does not return:
  the failure of \<open>/d1\<close> is caught, but the operation submitted for \<open>/d2\<close> waits for
  the rejected operation of \<open>/d1\<close> and the \<open>await\<close> on it never ends. In terms of
  events: after the call for \<open>/d1\<close>, its start and the \<open>error\<close> of its process, the
  call for \<open>/d2\<close> stores promise 3, which no sequence of events settles.
\<close>

theorem build_hangs_after_launch_error:
  "build demo_config
     [(''/d1'', LaunchError ''Error: spawn cscope ENOENT''), (''/d2'', Exit (Some 0) ''ok'' [])]
     constructor = None \<and>
   fst (buildSingle_awaited ''/d2''
          (run demo_config
             [Call ''/d1'', Resume 0, Start 2, ProcError 2 ''Error: spawn cscope ENOENT'']
             constructor))
     = Returned (Inr 3) \<and>
   \<not> is_settled
       (heap (run cfg evs
                (snd (buildSingle_awaited ''/d2''
                        (run demo_config
                           [Call ''/d1'', Resume 0, Start 2,
                            ProcError 2 ''Error: spawn cscope ENOENT'']
                           constructor)))) ! 3)"
proof -
  define t where "t = snd (buildSingle_awaited ''/d2''
                        (run demo_config
                           [Call ''/d1'', Resume 0, Start 2,
                            ProcError 2 ''Error: spawn cscope ENOENT'']
                           constructor))"
  have a: "build demo_config
     [(''/d1'', LaunchError ''Error: spawn cscope ENOENT''), (''/d2'', Exit (Some 0) ''ok'' [])]
     constructor = None"
    by code_simp
  have b: "fst (buildSingle_awaited ''/d2''
          (run demo_config
             [Call ''/d1'', Resume 0, Start 2, ProcError 2 ''Error: spawn cscope ENOENT'']
             constructor))
     = Returned (Inr 3)"
    by code_simp
  have h: "heap t = [Fulfilled [], Fulfilled [], Rejected ''Error: spawn cscope ENOENT'',
                     Waiting [2, 1] ''/d2'']"
    unfolding t_def by code_simp
  have "heap (run cfg evs t) ! 3 = Waiting [2, 1] ''/d2''"
    by (rule waiting_on_rejected_run [where d = 2 and e = "''Error: spawn cscope ENOENT''"])
       (simp_all add: h)
  then have "\<not> is_settled (heap (run cfg evs t) ! 3)"
    by (simp add: is_settled_def)
  then show ?thesis
    unfolding t_def using a b by simp
qed


text \<open>
  Claim C4 says that \<open>build\<close> over k directories returns k segments joined by
  newlines. With two directories of which the last fails it does: \<open>out1\<close>, a newline,
  \<open>Error: boom\<close>. With three directories of which the second fails it returns
  nothing: the operation of the third waits for the rejected operation of the second.
\<close>

theorem build_report_missing_after_failure:
  "map_option fst
     (build demo_config
        [(''/d1'', Exit (Some 0) ''out1'' []), (''/d2'', Exit (Some 1) [] ''boom'')] constructor)
     = Some (''out1'' @ [CHR 0x0A] @ ''Error: boom'') \<and>
   build demo_config
     [(''/d1'', Exit (Some 0) ''out1'' []), (''/d2'', Exit (Some 1) [] ''boom''),
      (''/d3'', Exit (Some 0) ''out3'' [])] constructor
     = None"
  by code_simp


end
